theory Spec2Isabelle
  imports Complex_Main "HOL-Library.Word"
begin

section \<open>The ambient sound assistant: data model\<close>

text \<open>
  The program is the React component \<^verbatim>\<open>AmbientSoundApp\<close> of \<^verbatim>\<open>src/app/page.jsx\<close>.
  Its \<^verbatim>\<open>useState\<close> cells, its \<^verbatim>\<open>useRef\<close> cells and the part of the browser it
  drives (capture streams, audio contexts, animation frames, timers, the media
  session) are the fields of one record, passed through every callback.

  JavaScript numbers are modelled as mathematical numbers (\<open>int\<close> for the slider
  percentages, \<open>real\<close> for audio parameters and the level computation); a value
  that JavaScript would compute as \<^verbatim>\<open>NaN\<close> is \<open>None\<close>.
\<close>

subsection \<open>Audio nodes\<close>

record gain_node =
  gain :: real

record compressor_node =
  threshold :: real
  knee :: real
  ratio :: real
  attack :: real
  release :: real

record biquad_filter =
  filterType :: string
  frequency :: real
  filterQ :: real

record analyser_node =
  fftSize :: nat
  smoothingTimeConstant :: real

text \<open>\<^verbatim>\<open>AnalyserNode.frequencyBinCount\<close> is half the FFT size.\<close>

definition frequencyBinCount :: "analyser_node \<Rightarrow> nat" where
  "frequencyBinCount a = fftSize a div 2"

datatype ctx_state = Suspended | Running | Closed

datatype playback = NoPlayback | Playing | Paused

subsection \<open>Values a callback closes over\<close>

text \<open>
  A callback created during a render reads the render's values of the state
  variables, not the cells: \<^verbatim>\<open>setX\<close> changes what the next render
  sees, never what an existing closure sees. \<open>closure\<close> holds the values of the
  variables that the callbacks of the component read from their defining render.
\<close>

record closure =
  c_isActive :: bool
  c_micGain :: int
  c_outputVolume :: int
  c_echoCancel :: bool
  c_noiseSuppress :: bool
  c_autoGainControl :: bool
  c_latencyMode :: string

text \<open>The \<^verbatim>\<open>audio\<close> object handed to \<^verbatim>\<open>getUserMedia\<close> (lines 149-160).\<close>

record constraints =
  echoCancellation :: bool
  noiseSuppression :: bool
  autoGainControlRequested :: bool
  sampleRate :: nat
  sampleSize :: nat
  channelCount :: nat
  latency :: real
  volume :: real

text \<open>
  A suspended \<^verbatim>\<open>startAmbientSound\<close>: at \<^verbatim>\<open>await getUserMedia(constraints)\<close>, or at
  \<^verbatim>\<open>await audioContext.resume()\<close> inside \<^verbatim>\<open>createOptimizedAudioChain\<close>, where the
  locals \<^verbatim>\<open>stream\<close> and \<^verbatim>\<open>audioContext\<close> are alive.
\<close>

datatype task =
    AwaitStream closure constraints
  | AwaitResume closure nat nat

subsection \<open>The component and the browser around it\<close>

text \<open>
  The one-element arrays \<^verbatim>\<open>micGain\<close> and \<^verbatim>\<open>outputVolume\<close> are modelled by their
  element. Streams, audio contexts and animation frames are objects of the
  browser: a reference cell holds the object's identity, and what the browser knows
  about the object (tracks still live, context state, frame still requested) is
  kept in \<open>liveStreams\<close>, \<open>contexts\<close> and \<open>frames\<close>. Frame identities are positive,
  as the handles of \<^verbatim>\<open>requestAnimationFrame\<close> are, so the truthiness test on
  \<^verbatim>\<open>animationFrameRef.current\<close> is the test for \<open>Some\<close>.
\<close>

record app =
  isActive :: bool
  micGain :: int
  outputVolume :: int
  audioLevel :: "int option"
  error :: "string option"
  isSupported :: bool
  echoCancel :: bool
  noiseSuppress :: bool
  autoGainControl :: bool
  latencyMode :: string
  audioContextRef :: "nat option"
  streamRef :: "nat option"
  sourceNodeRef :: "nat option"
  gainNodeRef :: "gain_node option"
  outputGainRef :: "gain_node option"
  analyserRef :: "analyser_node option"
  compressorRef :: "compressor_node option"
  filterRef :: "biquad_filter option"
  animationFrameRef :: "nat option"
  nextId :: nat
  liveStreams :: "nat set"
  contexts :: "nat \<rightharpoonup> ctx_state"
  frames :: "nat set"
  pending :: "task list"
  timers :: "closure list"
  hasMediaSession :: bool
  playbackState :: playback
  mediaHandlers :: "closure option"

text \<open>The values the current render gives to the callbacks it creates.\<close>

definition snapshot :: "app \<Rightarrow> closure" where
  "snapshot s =
     \<lparr>c_isActive = isActive s, c_micGain = micGain s, c_outputVolume = outputVolume s,
      c_echoCancel = echoCancel s, c_noiseSuppress = noiseSuppress s,
      c_autoGainControl = autoGainControl s, c_latencyMode = latencyMode s\<rparr>"

text \<open>The first render (lines 14-35), in a browser with or without a media session.\<close>

definition initial :: "bool \<Rightarrow> app" where
  "initial ms =
     \<lparr>isActive = False, micGain = 80, outputVolume = 60, audioLevel = Some 0,
      error = None, isSupported = True, echoCancel = True, noiseSuppress = True,
      autoGainControl = False, latencyMode = ''interactive'',
      audioContextRef = None, streamRef = None, sourceNodeRef = None,
      gainNodeRef = None, outputGainRef = None, analyserRef = None,
      compressorRef = None, filterRef = None, animationFrameRef = None,
      nextId = 1, liveStreams = {}, contexts = Map.empty, frames = {},
      pending = [], timers = [], hasMediaSession = ms, playbackState = NoPlayback,
      mediaHandlers = None\<rparr>"

section \<open>Teardown\<close>

text \<open>
  \<^verbatim>\<open>cleanup\<close> (lines 38-61): cancel the requested frame, stop the tracks of the
  stream, close the context unless it is closed already, clear the node cells.
\<close>

definition cancelFrame :: "app \<Rightarrow> app" where
  "cancelFrame s =
     (case animationFrameRef s of
        Some f \<Rightarrow> s\<lparr>frames := frames s - {f}, animationFrameRef := None\<rparr>
      | None \<Rightarrow> s)"

definition stopTracks :: "app \<Rightarrow> app" where
  "stopTracks s =
     (case streamRef s of
        Some st \<Rightarrow> s\<lparr>liveStreams := liveStreams s - {st}, streamRef := None\<rparr>
      | None \<Rightarrow> s)"

definition closeContext :: "app \<Rightarrow> app" where
  "closeContext s =
     (case audioContextRef s of
        Some c \<Rightarrow>
          if contexts s c \<noteq> Some Closed
          then s\<lparr>contexts := (contexts s)(c \<mapsto> Closed), audioContextRef := None\<rparr>
          else s
      | None \<Rightarrow> s)"

definition clearNodes :: "app \<Rightarrow> app" where
  "clearNodes s =
     s\<lparr>sourceNodeRef := None, gainNodeRef := None, outputGainRef := None,
       analyserRef := None, compressorRef := None, filterRef := None\<rparr>"

definition cleanup :: "app \<Rightarrow> app" where
  "cleanup s = clearNodes (closeContext (stopTracks (cancelFrame s)))"

section \<open>The level meter\<close>

text \<open>
  \<^verbatim>\<open>updateAudioLevel\<close> (lines 63-80). The loop over the byte buffer adds the squares
  of the samples, each moved from \<open>0..255\<close> to \<open>[-1, 1)\<close>; \<open>sumSquares\<close> is the
  loop, with the running \<^verbatim>\<open>sum\<close> as its second argument.
\<close>

fun sumSquares :: "8 word list \<Rightarrow> real \<Rightarrow> real" where
  "sumSquares [] acc = acc"
| "sumSquares (d # ds) acc =
     (let sample = (real (unat d) - 128) / 128 in sumSquares ds (acc + sample * sample))"

text \<open>
  The value passed to \<^verbatim>\<open>setAudioLevel\<close>. On an empty buffer JavaScript divides
  zero by zero, and the \<^verbatim>\<open>NaN\<close> goes through \<^verbatim>\<open>Math.sqrt\<close>, \<^verbatim>\<open>Math.round\<close> and
  \<^verbatim>\<open>Math.min\<close>. \<^verbatim>\<open>Math.round\<close> rounds a half upwards, as \<open>round\<close> does.
\<close>

definition sampleLevel :: "8 word list \<Rightarrow> int option" where
  "sampleLevel dataArray =
     (if dataArray = [] then None
      else
        let rms = sqrt (sumSquares dataArray 0 / real (length dataArray));
            level = round (rms * 100 * 3)
        in Some (min 100 level))"

text \<open>\<^verbatim>\<open>requestAnimationFrame(updateAudioLevel)\<close>, its handle stored in the cell.\<close>

definition requestFrame :: "app \<Rightarrow> app" where
  "requestFrame s =
     s\<lparr>frames := insert (nextId s) (frames s), animationFrameRef := Some (nextId s),
       nextId := Suc (nextId s)\<rparr>"

text \<open>
  \<open>samples\<close> is the time-domain signal the analyser holds when it is read:
  \<^verbatim>\<open>getByteTimeDomainData\<close> fills a buffer of \<^verbatim>\<open>frequencyBinCount\<close> bytes from it.
\<close>

definition updateAudioLevel :: "(nat \<Rightarrow> 8 word) \<Rightarrow> app \<Rightarrow> app" where
  "updateAudioLevel samples s =
     (case analyserRef s of
        None \<Rightarrow> s
      | Some an \<Rightarrow>
          let dataArray = map samples [0..<frequencyBinCount an]
          in requestFrame (s\<lparr>audioLevel := sampleLevel dataArray\<rparr>))"

section \<open>Starting and stopping\<close>

text \<open>The second half of \<^verbatim>\<open>createOptimizedAudioChain\<close> (lines 94-141).\<close>

definition buildNodes :: "closure \<Rightarrow> nat \<Rightarrow> nat \<Rightarrow> app \<Rightarrow> app" where
  "buildNodes c stream ctx s =
     s\<lparr>audioContextRef := Some ctx,
       sourceNodeRef := Some stream,
       gainNodeRef := Some \<lparr>gain = real_of_int (c_micGain c) / 100\<rparr>,
       outputGainRef := Some \<lparr>gain = real_of_int (c_outputVolume c) / 100\<rparr>,
       analyserRef := Some \<lparr>fftSize = 512, smoothingTimeConstant = 3 / 10\<rparr>,
       compressorRef :=
         Some \<lparr>threshold = - 24, knee = 30, ratio = 12, attack = 3 / 1000, release = 1 / 4\<rparr>,
       filterRef :=
         Some \<lparr>filterType = ''highpass'',
               frequency = (if c_noiseSuppress c then 200 else 80), filterQ = 1\<rparr>\<rparr>"

text \<open>What \<^verbatim>\<open>startAmbientSound\<close> does after the chain is built (lines 168-174).\<close>

definition started :: "(nat \<Rightarrow> 8 word) \<Rightarrow> app \<Rightarrow> app" where
  "started samples s =
     (let s1 = updateAudioLevel samples (s\<lparr>isActive := True\<rparr>)
      in if hasMediaSession s1 then s1\<lparr>playbackState := Playing\<rparr> else s1)"

text \<open>The \<^verbatim>\<open>catch\<close> block (lines 176-195): the message is chosen by \<^verbatim>\<open>err.name\<close>.\<close>

definition errorMessage :: "string \<Rightarrow> string" where
  "errorMessage name =
     ''Microphone access failed. '' @
     (if name = ''NotAllowedError''
      then ''Please allow microphone access in your browser settings.''
      else if name = ''NotFoundError''
      then ''No microphone detected. Please connect a microphone.''
      else if name = ''NotReadableError''
      then ''Microphone is being used by another application.''
      else ''Please check your audio settings and try again.'')"

definition failed :: "string \<Rightarrow> app \<Rightarrow> app" where
  "failed name s = s\<lparr>error := Some (errorMessage name)\<rparr>"

definition constraintsOf :: "closure \<Rightarrow> constraints" where
  "constraintsOf c =
     \<lparr>echoCancellation = c_echoCancel c, noiseSuppression = c_noiseSuppress c,
      autoGainControlRequested = c_autoGainControl c, sampleRate = 44100,
      sampleSize = 16, channelCount = 1, latency = 1 / 100, volume = 1\<rparr>"

text \<open>
  \<^verbatim>\<open>startAmbientSound\<close> up to its first suspension (lines 144-162): the error is
  cleared, the capture is requested, and the call waits for the browser.
\<close>

definition startAmbientSound :: "closure \<Rightarrow> app \<Rightarrow> app" where
  "startAmbientSound c s =
     s\<lparr>error := None, pending := pending s @ [AwaitStream c (constraintsOf c)]\<rparr>"

text \<open>
  What the browser answers. \<^verbatim>\<open>getUserMedia\<close> rejects with an error of some name
  or resolves with a new stream; \<^verbatim>\<open>new AudioContext\<close> throws or gives a context
  that is running or suspended; \<^verbatim>\<open>resume()\<close> resolves or rejects.
\<close>

datatype engine = ConstructorThrows string | ConstructedRunning | ConstructedSuspended

datatype acquisition = Rejected string | Granted engine

text \<open>
  The continuation of \<^verbatim>\<open>startAmbientSound\<close> when \<^verbatim>\<open>getUserMedia\<close> settles (lines
  162-166, and lines 84-92 of the chain): the stream goes into its cell before the
  chain is built, and nothing in the \<^verbatim>\<open>catch\<close> block takes it out again.
\<close>

definition streamSettled :: "closure \<Rightarrow> acquisition \<Rightarrow> (nat \<Rightarrow> 8 word) \<Rightarrow> app \<Rightarrow> app" where
  "streamSettled c a samples s =
     (case a of
        Rejected name \<Rightarrow> failed name s
      | Granted e \<Rightarrow>
          let stream = nextId s;
              s1 = s\<lparr>liveStreams := insert stream (liveStreams s), nextId := Suc stream,
                     streamRef := Some stream\<rparr>
          in case e of
               ConstructorThrows name \<Rightarrow> failed name s1
             | ConstructedRunning \<Rightarrow>
                 let ctx = nextId s1;
                     s2 = s1\<lparr>contexts := (contexts s1)(ctx \<mapsto> Running), nextId := Suc ctx\<rparr>
                 in started samples (buildNodes c stream ctx s2)
             | ConstructedSuspended \<Rightarrow>
                 let ctx = nextId s1;
                     s2 = s1\<lparr>contexts := (contexts s1)(ctx \<mapsto> Suspended), nextId := Suc ctx\<rparr>
                 in s2\<lparr>pending := pending s2 @ [AwaitResume c stream ctx]\<rparr>)"

text \<open>The continuation when \<^verbatim>\<open>resume()\<close> settles; \<open>Some name\<close> is a rejection.\<close>

definition resumeSettled ::
  "closure \<Rightarrow> nat \<Rightarrow> nat \<Rightarrow> string option \<Rightarrow> (nat \<Rightarrow> 8 word) \<Rightarrow> app \<Rightarrow> app" where
  "resumeSettled c stream ctx r samples s =
     (case r of
        Some name \<Rightarrow> failed name s
      | None \<Rightarrow>
          started samples
            (buildNodes c stream ctx (s\<lparr>contexts := (contexts s)(ctx \<mapsto> Running)\<rparr>)))"

text \<open>\<^verbatim>\<open>stopAmbientSound\<close> (lines 198-206).\<close>

definition stopAmbientSound :: "app \<Rightarrow> app" where
  "stopAmbientSound s =
     (let s1 = (cleanup s)\<lparr>isActive := False, audioLevel := Some 0\<rparr>
      in if hasMediaSession s1 then s1\<lparr>playbackState := Paused\<rparr> else s1)"

section \<open>The controls\<close>

text \<open>
  \<^verbatim>\<open>updateMicGain\<close> (lines 208-213) and \<^verbatim>\<open>updateOutputVolume\<close> (lines 215-221). The
  slider hands over the one-element array \<^verbatim>\<open>[newValue]\<close>; \<open>v\<close> is its element.
\<close>

definition updateMicGain :: "int \<Rightarrow> app \<Rightarrow> app" where
  "updateMicGain v s =
     (let s1 = s\<lparr>micGain := v\<rparr>
      in case gainNodeRef s1 of
           Some g \<Rightarrow> s1\<lparr>gainNodeRef := Some (g\<lparr>gain := real_of_int v / 100\<rparr>)\<rparr>
         | None \<Rightarrow> s1)"

definition updateOutputVolume :: "int \<Rightarrow> app \<Rightarrow> app" where
  "updateOutputVolume v s =
     (let s1 = s\<lparr>outputVolume := v\<rparr>
      in case outputGainRef s1 of
           Some g \<Rightarrow> s1\<lparr>outputGainRef := Some (g\<lparr>gain := real_of_int v / 100\<rparr>)\<rparr>
         | None \<Rightarrow> s1)"

text \<open>
  \<^verbatim>\<open>setTimeout(startAmbientSound, 100)\<close>: the timer keeps the \<^verbatim>\<open>startAmbientSound\<close> of
  the render in which the toggle was created, with that render's values.
\<close>

definition restart :: "closure \<Rightarrow> app \<Rightarrow> app" where
  "restart c s = (let s1 = stopAmbientSound s in s1\<lparr>timers := timers s1 @ [c]\<rparr>)"

text \<open>\<^verbatim>\<open>toggleEchoCancel\<close> (lines 223-230) and \<^verbatim>\<open>toggleAutoGain\<close> (lines 244-250).\<close>

definition toggleEchoCancel :: "closure \<Rightarrow> app \<Rightarrow> app" where
  "toggleEchoCancel c s =
     (let s1 = s\<lparr>echoCancel := \<not> c_echoCancel c\<rparr>
      in if c_isActive c then restart c s1 else s1)"

definition toggleAutoGain :: "closure \<Rightarrow> app \<Rightarrow> app" where
  "toggleAutoGain c s =
     (let s1 = s\<lparr>autoGainControl := \<not> c_autoGainControl c\<rparr>
      in if c_isActive c then restart c s1 else s1)"

text \<open>
  \<^verbatim>\<open>toggleNoiseSuppress\<close> (lines 232-242). \<open>retuneFilter\<close> is its first half (lines
  233-236): the flag is flipped and the live filter, when there is one, is given the
  cutoff of the new flag. The second half restarts, and only when the flag was off.
\<close>

definition retuneFilter :: "closure \<Rightarrow> app \<Rightarrow> app" where
  "retuneFilter c s =
     (let s1 = s\<lparr>noiseSuppress := \<not> c_noiseSuppress c\<rparr>
      in case filterRef s1 of
           Some f \<Rightarrow>
             s1\<lparr>filterRef := Some (f\<lparr>frequency := (if \<not> c_noiseSuppress c then 200 else 80)\<rparr>)\<rparr>
         | None \<Rightarrow> s1)"

definition toggleNoiseSuppress :: "closure \<Rightarrow> app \<Rightarrow> app" where
  "toggleNoiseSuppress c s =
     (let s1 = retuneFilter c s
      in if c_isActive c \<and> \<not> c_noiseSuppress c then restart c s1 else s1)"

section \<open>The media session\<close>

text \<open>
  The effect of lines 252-316 runs once, after the first render: its only
  dependency is \<^verbatim>\<open>cleanup\<close>, which never changes. The five handlers it registers
  are closures of that render, so \<open>mediaHandlers\<close> keeps the values they read.
  \<open>supported\<close> says whether the browser has \<^verbatim>\<open>navigator.mediaDevices\<close> and
  \<^verbatim>\<open>window.AudioContext\<close>.
\<close>

definition mount :: "bool \<Rightarrow> app \<Rightarrow> app" where
  "mount supported s =
     (if \<not> supported
      then s\<lparr>isSupported := False,
             error := Some (''Your browser doesn't support required audio features. '' @
                            ''Please use Chrome, Firefox, or Safari.'')\<rparr>
      else if hasMediaSession s then s\<lparr>mediaHandlers := Some (snapshot s)\<rparr>
      else s)"

definition mediaPlay :: "closure \<Rightarrow> app \<Rightarrow> app" where
  "mediaPlay c s = (if \<not> c_isActive c then startAmbientSound c s else s)"

definition mediaPause :: "closure \<Rightarrow> app \<Rightarrow> app" where
  "mediaPause c s = (if c_isActive c then stopAmbientSound s else s)"

definition mediaStop :: "app \<Rightarrow> app" where
  "mediaStop s =
     (let s1 = (cleanup s)\<lparr>isActive := False, audioLevel := Some 0\<rparr>
      in if hasMediaSession s1 then s1\<lparr>playbackState := Paused\<rparr> else s1)"

definition mediaSeekBackward :: "closure \<Rightarrow> app \<Rightarrow> app" where
  "mediaSeekBackward c s =
     (let newVolume = max 0 (c_outputVolume c - 10);
          s1 = s\<lparr>outputVolume := newVolume\<rparr>
      in case outputGainRef s1 of
           Some g \<Rightarrow> s1\<lparr>outputGainRef := Some (g\<lparr>gain := real_of_int newVolume / 100\<rparr>)\<rparr>
         | None \<Rightarrow> s1)"

definition mediaSeekForward :: "closure \<Rightarrow> app \<Rightarrow> app" where
  "mediaSeekForward c s =
     (let newVolume = min 100 (c_outputVolume c + 10);
          s1 = s\<lparr>outputVolume := newVolume\<rparr>
      in case outputGainRef s1 of
           Some g \<Rightarrow> s1\<lparr>outputGainRef := Some (g\<lparr>gain := real_of_int newVolume / 100\<rparr>)\<rparr>
         | None \<Rightarrow> s1)"

section \<open>Events\<close>

text \<open>
  Everything runs on one thread: the component changes only when the user acts on a
  control, when the browser settles a promise, fires a timer or a frame, when the
  media session delivers an action, or when the component is mounted or unmounted.
  A control calls the callback of the latest render; a timer and a media action
  call the closure they were given. Unmounting runs \<^verbatim>\<open>cleanup\<close>, which the effect
  returns unless it found the browser unsupported.
\<close>

datatype event =
    Mount bool
  | Unmount
  | ClickMain
  | SlideMicGain int
  | SlideOutputVolume int
  | SwitchEchoCancel
  | SwitchNoiseSuppress
  | SwitchAutoGain
  | StreamSettles nat acquisition "nat \<Rightarrow> 8 word"
  | ResumeSettles nat "string option" "nat \<Rightarrow> 8 word"
  | TimerFires
  | FrameFires nat "nat \<Rightarrow> 8 word"
  | RemotePlay
  | RemotePause
  | RemoteStop
  | RemoteSeekBackward
  | RemoteSeekForward

definition removeAt :: "nat \<Rightarrow> 'a list \<Rightarrow> 'a list" where
  "removeAt i xs = take i xs @ drop (Suc i) xs"

definition settleStream :: "nat \<Rightarrow> acquisition \<Rightarrow> (nat \<Rightarrow> 8 word) \<Rightarrow> app \<Rightarrow> app" where
  "settleStream i a samples s =
     (if i < length (pending s)
      then case pending s ! i of
             AwaitStream c k \<Rightarrow> streamSettled c a samples (s\<lparr>pending := removeAt i (pending s)\<rparr>)
           | AwaitResume c stream ctx \<Rightarrow> s
      else s)"

definition settleResume :: "nat \<Rightarrow> string option \<Rightarrow> (nat \<Rightarrow> 8 word) \<Rightarrow> app \<Rightarrow> app" where
  "settleResume i r samples s =
     (if i < length (pending s)
      then case pending s ! i of
             AwaitStream c k \<Rightarrow> s
           | AwaitResume c stream ctx \<Rightarrow>
               resumeSettled c stream ctx r samples (s\<lparr>pending := removeAt i (pending s)\<rparr>)
      else s)"

definition timerFires :: "app \<Rightarrow> app" where
  "timerFires s =
     (case timers s of
        [] \<Rightarrow> s
      | c # cs \<Rightarrow> startAmbientSound c (s\<lparr>timers := cs\<rparr>))"

definition frameFires :: "nat \<Rightarrow> (nat \<Rightarrow> 8 word) \<Rightarrow> app \<Rightarrow> app" where
  "frameFires f samples s =
     (if f \<in> frames s then updateAudioLevel samples (s\<lparr>frames := frames s - {f}\<rparr>) else s)"

definition remote :: "(closure \<Rightarrow> app \<Rightarrow> app) \<Rightarrow> app \<Rightarrow> app" where
  "remote handler s = (case mediaHandlers s of Some c \<Rightarrow> handler c s | None \<Rightarrow> s)"

fun step :: "event \<Rightarrow> app \<Rightarrow> app" where
  "step (Mount supported) s = mount supported s"
| "step Unmount s = (if isSupported s then cleanup s else s)"
| "step ClickMain s =
     (if isActive s then stopAmbientSound s else startAmbientSound (snapshot s) s)"
| "step (SlideMicGain v) s = updateMicGain v s"
| "step (SlideOutputVolume v) s = updateOutputVolume v s"
| "step SwitchEchoCancel s = toggleEchoCancel (snapshot s) s"
| "step SwitchNoiseSuppress s = toggleNoiseSuppress (snapshot s) s"
| "step SwitchAutoGain s = toggleAutoGain (snapshot s) s"
| "step (StreamSettles i a samples) s = settleStream i a samples s"
| "step (ResumeSettles i r samples) s = settleResume i r samples s"
| "step TimerFires s = timerFires s"
| "step (FrameFires f samples) s = frameFires f samples s"
| "step RemotePlay s = remote mediaPlay s"
| "step RemotePause s = remote mediaPause s"
| "step RemoteStop s = remote (\<lambda>c. mediaStop) s"
| "step RemoteSeekBackward s = remote mediaSeekBackward s"
| "step RemoteSeekForward s = remote mediaSeekForward s"

fun run :: "event list \<Rightarrow> app \<Rightarrow> app" where
  "run [] s = s"
| "run (e # es) s = run es (step e s)"

section \<open>Notions of the specification\<close>

text \<open>
  The specification speaks of a session of five handles (capture, graph, input
  gain, output gain, analyser); they are the cells \<open>streamRef\<close>, \<open>audioContextRef\<close>,
  \<open>gainNodeRef\<close>, \<open>outputGainRef\<close> and \<open>analyserRef\<close>.
\<close>

definition handlesPresent :: "app \<Rightarrow> bool" where
  "handlesPresent s =
     (streamRef s \<noteq> None \<and> audioContextRef s \<noteq> None \<and> gainNodeRef s \<noteq> None \<and>
      outputGainRef s \<noteq> None \<and> analyserRef s \<noteq> None)"

definition handlesAbsent :: "app \<Rightarrow> bool" where
  "handlesAbsent s =
     (streamRef s = None \<and> audioContextRef s = None \<and> gainNodeRef s = None \<and>
      outputGainRef s = None \<and> analyserRef s = None)"

text \<open>The fields of the specification's UserPreferences.\<close>

definition preferences :: "app \<Rightarrow> int \<times> int \<times> bool \<times> bool \<times> bool \<times> string" where
  "preferences s =
     (micGain s, outputVolume s, echoCancel s, noiseSuppress s, autoGainControl s, latencyMode s)"

text \<open>
  The root mean square as the specification writes it: the square root of the mean
  of the squared samples on the scale \<open>[-1, 1]\<close>.
\<close>

definition spec_rms :: "8 word list \<Rightarrow> real" where
  "spec_rms buf =
     sqrt ((\<Sum>d\<leftarrow>buf. ((real (unat d) - 128) / 128)\<^sup>2) / real (length buf))"

text \<open>
  The four error kinds of the specification. \<open>errorKind\<close> names the branch that the
  \<^verbatim>\<open>switch\<close> of the \<^verbatim>\<open>catch\<close> block takes for an error name, and \<open>kindMessage\<close> is
  the sentence of that branch.
\<close>

datatype capture_error = PermissionDenied | DeviceNotFound | DeviceBusy | UnknownCaptureError

definition errorKind :: "string \<Rightarrow> capture_error" where
  "errorKind name =
     (if name = ''NotAllowedError'' then PermissionDenied
      else if name = ''NotFoundError'' then DeviceNotFound
      else if name = ''NotReadableError'' then DeviceBusy
      else UnknownCaptureError)"

fun kindMessage :: "capture_error \<Rightarrow> string" where
  "kindMessage PermissionDenied =
     ''Microphone access failed. Please allow microphone access in your browser settings.''"
| "kindMessage DeviceNotFound =
     ''Microphone access failed. No microphone detected. Please connect a microphone.''"
| "kindMessage DeviceBusy =
     ''Microphone access failed. Microphone is being used by another application.''"
| "kindMessage UnknownCaptureError =
     ''Microphone access failed. Please check your audio settings and try again.''"

text \<open>
  The referenced audio context, if any, has not been closed. Every state the
  component reaches has this property (\<open>contextOpen_run\<close> below).
\<close>

definition contextOpen :: "app \<Rightarrow> bool" where
  "contextOpen s =
     (case audioContextRef s of None \<Rightarrow> True | Some c \<Rightarrow> contexts s c \<noteq> Some Closed)"

section \<open>Teardown is idempotent\<close>

lemma cancelFrame_noop: "animationFrameRef s = None \<Longrightarrow> cancelFrame s = s"
  by (simp add: cancelFrame_def)

lemma stopTracks_noop: "streamRef s = None \<Longrightarrow> stopTracks s = s"
  by (simp add: stopTracks_def)

lemma closeContext_noop:
  "audioContextRef s = None \<or> (\<exists>c. audioContextRef s = Some c \<and> contexts s c = Some Closed)
   \<Longrightarrow> closeContext s = s"
  by (auto simp add: closeContext_def)

lemma clearNodes_twice: "clearNodes (clearNodes s) = clearNodes s"
  by (simp add: clearNodes_def)

lemma clearNodes_noop:
  "sourceNodeRef s = None \<Longrightarrow> gainNodeRef s = None \<Longrightarrow> outputGainRef s = None \<Longrightarrow>
   analyserRef s = None \<Longrightarrow> compressorRef s = None \<Longrightarrow> filterRef s = None \<Longrightarrow>
   clearNodes s = s"
  by (simp add: clearNodes_def)

lemma animationFrameRef_cancelFrame: "animationFrameRef (cancelFrame s) = None"
  by (cases "animationFrameRef s") (simp_all add: cancelFrame_def)

lemma streamRef_stopTracks: "streamRef (stopTracks s) = None"
  by (cases "streamRef s") (simp_all add: stopTracks_def)

lemma closeContext_closed:
  "audioContextRef (closeContext s) = None \<or>
   (\<exists>c. audioContextRef (closeContext s) = Some c \<and> contexts (closeContext s) c = Some Closed)"
  by (cases "audioContextRef s") (auto simp add: closeContext_def)

lemma stopTracks_keeps:
  "animationFrameRef (stopTracks s) = animationFrameRef s"
  "audioContextRef (stopTracks s) = audioContextRef s"
  "contexts (stopTracks s) = contexts s"
  "frames (stopTracks s) = frames s"
  by (cases "streamRef s"; simp add: stopTracks_def)+

lemma cancelFrame_keeps:
  "streamRef (cancelFrame s) = streamRef s"
  "audioContextRef (cancelFrame s) = audioContextRef s"
  "contexts (cancelFrame s) = contexts s"
  "liveStreams (cancelFrame s) = liveStreams s"
  by (cases "animationFrameRef s"; simp add: cancelFrame_def)+

lemma closeContext_keeps:
  "animationFrameRef (closeContext s) = animationFrameRef s"
  "streamRef (closeContext s) = streamRef s"
  "liveStreams (closeContext s) = liveStreams s"
  "frames (closeContext s) = frames s"
  by (cases "audioContextRef s"; simp add: closeContext_def)+

lemma clearNodes_keeps:
  "animationFrameRef (clearNodes s) = animationFrameRef s"
  "streamRef (clearNodes s) = streamRef s"
  "audioContextRef (clearNodes s) = audioContextRef s"
  "contexts (clearNodes s) = contexts s"
  "liveStreams (clearNodes s) = liveStreams s"
  "frames (clearNodes s) = frames s"
  by (simp_all add: clearNodes_def)

lemma clearNodes_refs:
  "sourceNodeRef (clearNodes s) = None"
  "gainNodeRef (clearNodes s) = None"
  "outputGainRef (clearNodes s) = None"
  "analyserRef (clearNodes s) = None"
  "compressorRef (clearNodes s) = None"
  "filterRef (clearNodes s) = None"
  by (simp_all add: clearNodes_def)

lemma cleanup_refs:
  "animationFrameRef (cleanup s) = None"
  "streamRef (cleanup s) = None"
  "sourceNodeRef (cleanup s) = None"
  "gainNodeRef (cleanup s) = None"
  "outputGainRef (cleanup s) = None"
  "analyserRef (cleanup s) = None"
  "compressorRef (cleanup s) = None"
  "filterRef (cleanup s) = None"
  by (simp_all add: cleanup_def clearNodes_keeps clearNodes_refs closeContext_keeps
      stopTracks_keeps animationFrameRef_cancelFrame streamRef_stopTracks)

lemma cleanup_initial: "cleanup (initial ms) = initial ms"
proof -
  have "cancelFrame (initial ms) = initial ms"
    by (rule cancelFrame_noop) (simp add: initial_def)
  moreover have "stopTracks (initial ms) = initial ms"
    by (rule stopTracks_noop) (simp add: initial_def)
  moreover have "closeContext (initial ms) = initial ms"
    by (rule closeContext_noop) (simp add: initial_def)
  moreover have "clearNodes (initial ms) = initial ms"
    by (rule clearNodes_noop) (simp_all add: initial_def)
  ultimately show ?thesis
    by (simp add: cleanup_def)
qed

text \<open>
  C9. Teardown is idempotent: \<^verbatim>\<open>cleanup\<close> run twice in a row leaves exactly the
  state that one run leaves (every cell, the level, the streams, contexts and frames
  of the browser), from every state; and from the idle first state it changes
  nothing at all.
\<close>

theorem cleanup_idempotent:
  "cleanup (cleanup s) = cleanup s \<and> cleanup (initial ms) = initial ms"
proof -
  let ?t = "cleanup s"
  have 1: "cancelFrame ?t = ?t"
    by (rule cancelFrame_noop) (rule cleanup_refs)
  have 2: "stopTracks ?t = ?t"
    by (rule stopTracks_noop) (rule cleanup_refs)
  have "audioContextRef ?t = None \<or>
        (\<exists>c. audioContextRef ?t = Some c \<and> contexts ?t c = Some Closed)"
    unfolding cleanup_def clearNodes_keeps by (rule closeContext_closed)
  then have 3: "closeContext ?t = ?t"
    by (rule closeContext_noop)
  have 4: "clearNodes ?t = ?t"
    by (simp add: cleanup_def clearNodes_twice)
  have "cleanup ?t = ?t"
    by (subst (1) cleanup_def) (simp only: 1 2 3 4)
  then show ?thesis
    by (simp add: cleanup_initial)
qed

section \<open>The meter without an analyser\<close>

text \<open>
  C10. When the analyser cell is empty, the meter step does nothing: the state
  after it is the state before it, so the level is unchanged and no frame is
  requested. A frame that still fires is used up and nothing else happens. After
  \<^verbatim>\<open>cleanup\<close> the analyser cell is empty.
\<close>

theorem updateAudioLevel_without_analyser:
  "analyserRef s = None \<Longrightarrow>
     updateAudioLevel samples s = s \<and>
     frameFires f samples s = s\<lparr>frames := frames s - {f}\<rparr> \<and>
     audioLevel (frameFires f samples s) = audioLevel s \<and>
     animationFrameRef (frameFires f samples s) = animationFrameRef s \<and>
     analyserRef (cleanup s') = None"
  by (simp add: updateAudioLevel_def frameFires_def cleanup_refs)

theorem updateAudioLevel_without_analyser_witness:
  "analyserRef (initial True) = None \<and>
   updateAudioLevel (\<lambda>i. 0) (initial True) = initial True \<and>
   frameFires 1 (\<lambda>i. 0) (initial True) = initial True"
  using updateAudioLevel_without_analyser [of "initial True" "\<lambda>i. 0" 1 "initial True"]
  by (simp add: initial_def)

section \<open>The level computation\<close>

lemma sumSquares_sum:
  "sumSquares buf acc = acc + (\<Sum>d\<leftarrow>buf. ((real (unat d) - 128) / 128)\<^sup>2)"
  by (induction buf arbitrary: acc) (simp_all add: power2_eq_square)

lemma sampleLevel_rms:
  "buf \<noteq> [] \<Longrightarrow> sampleLevel buf = Some (min 100 (round (spec_rms buf * 100 * 3)))"
  by (simp add: sampleLevel_def spec_rms_def sumSquares_sum)

lemma spec_rms_nonneg: "0 \<le> spec_rms buf"
  by (auto simp add: spec_rms_def intro!: divide_nonneg_nonneg sum_list_nonneg)

lemma round_rms_nonneg: "0 \<le> round (spec_rms buf * 100 * 3)"
proof -
  have "0 \<le> spec_rms buf * 100 * 3"
    using spec_rms_nonneg [of buf] by simp
  then have "round (0::real) \<le> round (spec_rms buf * 100 * 3)"
    by (rule round_mono)
  then show ?thesis by simp
qed

lemma squares_lower:
  "\<forall>d\<in>set buf. 1 / 4 \<le> ((real (unat d) - 128) / 128)\<^sup>2 \<Longrightarrow>
   real (length buf) / 4 \<le> (\<Sum>d\<leftarrow>buf. ((real (unat d) - 128) / 128)\<^sup>2)"
  by (induction buf) (simp_all add: field_simps)

text \<open>
  A buffer whose samples all lie at least half the scale away from the centre has
  a root mean square of at least one half, so its level is cut off at 100.
\<close>

lemma loud_level:
  assumes "buf \<noteq> []" and "\<forall>d\<in>set buf. 1 / 4 \<le> ((real (unat d) - 128) / 128)\<^sup>2"
  shows "sampleLevel buf = Some 100"
proof -
  let ?m = "(\<Sum>d\<leftarrow>buf. ((real (unat d) - 128) / 128)\<^sup>2) / real (length buf)"
  have len: "0 < real (length buf)" using assms(1) by simp
  have "real (length buf) / 4 \<le> (\<Sum>d\<leftarrow>buf. ((real (unat d) - 128) / 128)\<^sup>2)"
    using assms(2) by (rule squares_lower)
  then have "1 / 4 \<le> ?m"
    using len by (simp add: field_simps)
  then have "sqrt (1 / 4) \<le> sqrt ?m"
    by (simp only: real_sqrt_le_iff)
  moreover have "sqrt (1 / 4) = 1 / 2"
    by (simp add: real_sqrt_divide)
  ultimately have "1 / 2 \<le> spec_rms buf"
    by (simp add: spec_rms_def)
  then have "(150::real) \<le> spec_rms buf * 100 * 3" by simp
  then have "round (150::real) \<le> round (spec_rms buf * 100 * 3)"
    by (rule round_mono)
  then have "100 \<le> round (spec_rms buf * 100 * 3)" by simp
  then show ?thesis
    using assms(1) by (simp add: sampleLevel_rms)
qed

lemma silent_level: "0 < n \<Longrightarrow> sampleLevel (replicate n 128) = Some 0"
  by (simp add: sampleLevel_rms spec_rms_def sum_list_replicate)

lemma alternating_level:
  "0 < n \<Longrightarrow> sampleLevel (concat (replicate n [0, 255])) = Some 100"
proof (rule loud_level)
  assume "0 < n"
  then show "concat (replicate n [0, 255 :: 8 word]) \<noteq> []"
    by (cases n) simp_all
  show "\<forall>d\<in>set (concat (replicate n [0, 255 :: 8 word])).
          1 / 4 \<le> ((real (unat d) - 128) / 128)\<^sup>2"
    by (auto simp add: power2_eq_square)
qed

lemma zero_signal_level: "0 < n \<Longrightarrow> sampleLevel (map (\<lambda>i. 0) [0..<n]) = Some 100"
  by (rule loud_level) (auto simp add: power2_eq_square)

lemma audioLevel_updateAudioLevel:
  "analyserRef s = Some an \<Longrightarrow>
   audioLevel (updateAudioLevel samples s) = sampleLevel (map samples [0..<frequencyBinCount an])"
  by (simp add: updateAudioLevel_def requestFrame_def)

text \<open>
  C4. The level is a function of the byte buffer alone: for a buffer that is not
  empty it is \<open>round (rms * 100 * 3)\<close> kept within 0 and 100, where \<open>rms\<close> is the root
  mean square of the specification. A buffer of 128s has level 0, a buffer that
  alternates 0 and 255 has level 100, and the meter step stores the level of the
  buffer it reads from the analyser. (Numbers are real numbers here, not doubles.)
\<close>

theorem sampleLevel_spec:
  "(buf \<noteq> [] \<longrightarrow>
      sampleLevel buf = Some (max 0 (min 100 (round (spec_rms buf * 100 * 3))))) \<and>
   (0 < n \<longrightarrow> sampleLevel (replicate n 128) = Some 0) \<and>
   (0 < n \<longrightarrow> sampleLevel (concat (replicate n [0, 255])) = Some 100) \<and>
   (analyserRef s = Some an \<longrightarrow>
      audioLevel (updateAudioLevel samples s) =
        sampleLevel (map samples [0..<frequencyBinCount an]))"
proof (intro conjI impI)
  assume "buf \<noteq> []"
  then have "sampleLevel buf = Some (min 100 (round (spec_rms buf * 100 * 3)))"
    by (rule sampleLevel_rms)
  moreover have "max 0 (min 100 (round (spec_rms buf * 100 * 3))) =
      min 100 (round (spec_rms buf * 100 * 3))"
    using round_rms_nonneg [of buf] by simp
  ultimately show "sampleLevel buf = Some (max 0 (min 100 (round (spec_rms buf * 100 * 3))))"
    by simp
next
  assume "0 < n"
  then show "sampleLevel (replicate n 128) = Some 0"
    by (rule silent_level)
next
  assume "0 < n"
  then show "sampleLevel (concat (replicate n [0, 255])) = Some 100"
    by (rule alternating_level)
next
  assume "analyserRef s = Some an"
  then show "audioLevel (updateAudioLevel samples s) =
      sampleLevel (map samples [0..<frequencyBinCount an])"
    by (rule audioLevel_updateAudioLevel)
qed

theorem sampleLevel_spec_witness:
  "[0, 255 :: 8 word] \<noteq> [] \<and>
   sampleLevel [0, 255] = Some (max 0 (min 100 (round (spec_rms [0, 255] * 100 * 3)))) \<and>
   (0::nat) < 1 \<and>
   sampleLevel (replicate 1 128) = Some 0 \<and>
   sampleLevel (concat (replicate 1 [0, 255])) = Some 100 \<and>
   analyserRef (buildNodes (snapshot (initial True)) 1 2 (initial True)) =
     Some \<lparr>fftSize = 512, smoothingTimeConstant = 3 / 10\<rparr> \<and>
   audioLevel (updateAudioLevel (\<lambda>i. 128)
       (buildNodes (snapshot (initial True)) 1 2 (initial True))) =
     sampleLevel (map (\<lambda>i. 128)
       [0..<frequencyBinCount \<lparr>fftSize = 512, smoothingTimeConstant = 3 / 10\<rparr>])"
proof -
  have a: "analyserRef (buildNodes (snapshot (initial True)) 1 2 (initial True)) =
     Some \<lparr>fftSize = 512, smoothingTimeConstant = 3 / 10\<rparr>"
    by (simp add: buildNodes_def)
  have b: "[0, 255 :: 8 word] \<noteq> []" by simp
  have c: "(0::nat) < 1" by simp
  from sampleLevel_spec [of "[0, 255]" 1 "buildNodes (snapshot (initial True)) 1 2 (initial True)"
      "\<lparr>fftSize = 512, smoothingTimeConstant = 3 / 10\<rparr>" "\<lambda>i. 128"] a b c
  show ?thesis by blast
qed

section \<open>Errors of the acquisition\<close>

lemma kindMessage_inj: "inj kindMessage"
proof (rule injI)
  fix x y
  assume "kindMessage x = kindMessage y"
  then show "x = y" by (cases x; cases y; simp)
qed

lemma errorMessage_kind: "errorMessage name = kindMessage (errorKind name)"
  by (simp add: errorMessage_def errorKind_def)

lemma granted_holds_stream:
  "streamRef (streamSettled c (Granted e) samples s) = Some (nextId s) \<and>
   nextId s \<in> liveStreams (streamSettled c (Granted e) samples s)"
  by (cases e)
    (simp_all add: streamSettled_def failed_def started_def buildNodes_def
      updateAudioLevel_def requestFrame_def Let_def)

lemma rejected_sets_error:
  "streamSettled c (Rejected name) samples s = s\<lparr>error := Some (errorMessage name)\<rparr>"
  by (simp add: streamSettled_def failed_def)

text \<open>
  C5. Whatever the constraints, the acquisition ends in one of two ways. When it is
  granted, the new stream is in the capture cell and live. When it is rejected, the
  name of the error selects exactly one of four kinds: \<^verbatim>\<open>NotAllowedError\<close> is
  PermissionDenied, \<^verbatim>\<open>NotFoundError\<close> is DeviceNotFound, \<^verbatim>\<open>NotReadableError\<close> is
  DeviceBusy, and every other name is UnknownCaptureError; the message shown is the
  sentence of that kind, the four sentences differ, and no stream is held.
\<close>

theorem capture_errors_mapped:
  "errorMessage name = kindMessage (errorKind name) \<and>
   errorKind ''NotAllowedError'' = PermissionDenied \<and>
   errorKind ''NotFoundError'' = DeviceNotFound \<and>
   errorKind ''NotReadableError'' = DeviceBusy \<and>
   (name \<notin> {''NotAllowedError'', ''NotFoundError'', ''NotReadableError''} \<longrightarrow>
      errorKind name = UnknownCaptureError) \<and>
   inj kindMessage \<and>
   error (streamSettled c (Rejected name) samples s) = Some (kindMessage (errorKind name)) \<and>
   streamRef (streamSettled c (Rejected name) samples s) = streamRef s \<and>
   liveStreams (streamSettled c (Rejected name) samples s) = liveStreams s \<and>
   streamRef (streamSettled c (Granted e) samples s) = Some (nextId s) \<and>
   nextId s \<in> liveStreams (streamSettled c (Granted e) samples s)"
proof -
  have "errorKind ''NotAllowedError'' = PermissionDenied"
    and "errorKind ''NotFoundError'' = DeviceNotFound"
    and "errorKind ''NotReadableError'' = DeviceBusy"
    by (simp_all add: errorKind_def)
  moreover have "name \<notin> {''NotAllowedError'', ''NotFoundError'', ''NotReadableError''} \<longrightarrow>
      errorKind name = UnknownCaptureError"
    by (simp add: errorKind_def)
  ultimately show ?thesis
    using kindMessage_inj granted_holds_stream [of c e samples s]
    by (simp only: rejected_sets_error errorMessage_kind) simp
qed

theorem capture_errors_mapped_witness:
  "''OverconstrainedError'' \<notin> {''NotAllowedError'', ''NotFoundError'', ''NotReadableError''} \<and>
   errorKind ''OverconstrainedError'' = UnknownCaptureError \<and>
   errorMessage ''OverconstrainedError'' =
     ''Microphone access failed. Please check your audio settings and try again.''"
  using capture_errors_mapped [of "''OverconstrainedError''"]
  by simp

section \<open>The gain sliders\<close>

text \<open>
  C7. \<^verbatim>\<open>updateMicGain\<close> always stores the new percentage. With a live input gain
  node it sets the node's gain to exactly \<open>v / 100\<close> and changes nothing else: the
  session stays as it is (active flag, stream, context, the other nodes, and the
  streams, contexts and frames of the browser). Without one it only stores the
  percentage.
\<close>

theorem updateMicGain_live:
  "micGain (updateMicGain v s) = v \<and>
   (gainNodeRef s = None \<longrightarrow> updateMicGain v s = s\<lparr>micGain := v\<rparr>) \<and>
   (gainNodeRef s = Some g \<longrightarrow>
      gainNodeRef (updateMicGain v s) = Some (g\<lparr>gain := real_of_int v / 100\<rparr>) \<and>
      updateMicGain v s =
        s\<lparr>micGain := v, gainNodeRef := Some (g\<lparr>gain := real_of_int v / 100\<rparr>)\<rparr> \<and>
      isActive (updateMicGain v s) = isActive s \<and>
      streamRef (updateMicGain v s) = streamRef s \<and>
      audioContextRef (updateMicGain v s) = audioContextRef s \<and>
      outputGainRef (updateMicGain v s) = outputGainRef s \<and>
      analyserRef (updateMicGain v s) = analyserRef s \<and>
      liveStreams (updateMicGain v s) = liveStreams s \<and>
      contexts (updateMicGain v s) = contexts s \<and>
      frames (updateMicGain v s) = frames s)"
  by (cases "gainNodeRef s") (simp_all add: updateMicGain_def)

theorem updateMicGain_live_witness:
  "gainNodeRef (initial True) = None \<and>
   updateMicGain 0 (initial True) = (initial True)\<lparr>micGain := 0\<rparr> \<and>
   gainNodeRef (buildNodes (snapshot (initial True)) 1 2 (initial True)) = Some \<lparr>gain = 4 / 5\<rparr> \<and>
   gainNodeRef (updateMicGain 0 (buildNodes (snapshot (initial True)) 1 2 (initial True))) =
     Some \<lparr>gain = 0\<rparr> \<and>
   micGain (updateMicGain 0 (buildNodes (snapshot (initial True)) 1 2 (initial True))) = 0 \<and>
   streamRef (updateMicGain 0 (buildNodes (snapshot (initial True)) 1 2 (initial True))) =
     streamRef (buildNodes (snapshot (initial True)) 1 2 (initial True))"
proof -
  have a: "gainNodeRef (initial True) = None"
    by (simp add: initial_def)
  have b: "gainNodeRef (buildNodes (snapshot (initial True)) 1 2 (initial True)) =
      Some \<lparr>gain = 4 / 5\<rparr>"
    by (simp add: buildNodes_def snapshot_def initial_def)
  from updateMicGain_live [of 0 "initial True"] a
    updateMicGain_live [of 0 "buildNodes (snapshot (initial True)) 1 2 (initial True)"
      "\<lparr>gain = 4 / 5\<rparr>"] b
  show ?thesis by simp
qed

section \<open>What teardown and stop leave behind\<close>

lemma cleanup_nf:
  "cleanup s =
     s\<lparr>frames := frames s - set_option (animationFrameRef s),
       animationFrameRef := None,
       liveStreams := liveStreams s - set_option (streamRef s),
       streamRef := None,
       contexts :=
         (case audioContextRef s of
            None \<Rightarrow> contexts s
          | Some c \<Rightarrow>
              if contexts s c \<noteq> Some Closed then (contexts s)(c \<mapsto> Closed) else contexts s),
       audioContextRef :=
         (case audioContextRef s of
            None \<Rightarrow> None
          | Some c \<Rightarrow> if contexts s c \<noteq> Some Closed then None else Some c),
       sourceNodeRef := None, gainNodeRef := None, outputGainRef := None,
       analyserRef := None, compressorRef := None, filterRef := None\<rparr>"
  by (cases "animationFrameRef s"; cases "streamRef s"; cases "audioContextRef s")
     (simp_all add: cleanup_def cancelFrame_def stopTracks_def closeContext_def clearNodes_def)

lemma stopAmbientSound_nf:
  "stopAmbientSound s =
     (cleanup s)\<lparr>isActive := False, audioLevel := Some 0,
       playbackState := (if hasMediaSession s then Paused else playbackState s)\<rparr>"
  by (cases "hasMediaSession s") (simp_all add: stopAmbientSound_def cleanup_nf)

lemma mediaStop_stop: "mediaStop s = stopAmbientSound s"
  by (simp add: mediaStop_def stopAmbientSound_def)

subsection \<open>The referenced context is never a closed one\<close>

lemma contextOpen_iff:
  "contextOpen s \<longleftrightarrow> (\<forall>c. audioContextRef s = Some c \<longrightarrow> contexts s c \<noteq> Some Closed)"
  by (cases "audioContextRef s") (simp_all add: contextOpen_def)

lemma contextOpen_same:
  "audioContextRef t = audioContextRef s \<Longrightarrow> contexts t = contexts s \<Longrightarrow>
   contextOpen s \<Longrightarrow> contextOpen t"
  by (simp add: contextOpen_iff)

lemma cleanup_context: "contextOpen s \<Longrightarrow> audioContextRef (cleanup s) = None"
  by (cases "audioContextRef s") (simp_all add: cleanup_nf contextOpen_iff)

lemma contextOpen_empty: "audioContextRef s = None \<Longrightarrow> contextOpen s"
  by (simp add: contextOpen_iff)

lemma contextOpen_cleanup: "contextOpen s \<Longrightarrow> contextOpen (cleanup s)"
  by (rule contextOpen_empty) (rule cleanup_context)

lemma stop_context: "contextOpen s \<Longrightarrow> audioContextRef (stopAmbientSound s) = None"
  using cleanup_context [of s] by (simp add: stopAmbientSound_nf)

lemma contextOpen_stop: "contextOpen s \<Longrightarrow> contextOpen (stopAmbientSound s)"
  by (rule contextOpen_empty) (rule stop_context)

lemma contextOpen_start: "contextOpen s \<Longrightarrow> contextOpen (startAmbientSound c s)"
  by (rule contextOpen_same [of _ s]) (simp_all add: startAmbientSound_def)

lemma contextOpen_mount: "contextOpen s \<Longrightarrow> contextOpen (mount b s)"
  by (rule contextOpen_same [of _ s]) (simp_all add: mount_def)

lemma contextOpen_updateMicGain: "contextOpen s \<Longrightarrow> contextOpen (updateMicGain v s)"
  by (rule contextOpen_same [of _ s]; cases "gainNodeRef s") (simp_all add: updateMicGain_def)

lemma contextOpen_updateOutputVolume: "contextOpen s \<Longrightarrow> contextOpen (updateOutputVolume v s)"
  by (rule contextOpen_same [of _ s]; cases "outputGainRef s")
    (simp_all add: updateOutputVolume_def)

lemma contextOpen_restart: "contextOpen s \<Longrightarrow> contextOpen (restart c s)"
  using stop_context [of s] by (simp add: restart_def Let_def contextOpen_iff)

lemma contextOpen_toggleEchoCancel: "contextOpen s \<Longrightarrow> contextOpen (toggleEchoCancel c s)"
proof -
  assume "contextOpen s"
  then have "contextOpen (s\<lparr>echoCancel := \<not> c_echoCancel c\<rparr>)"
    by (simp add: contextOpen_iff)
  then show ?thesis
    by (simp add: toggleEchoCancel_def Let_def contextOpen_restart)
qed

lemma contextOpen_toggleAutoGain: "contextOpen s \<Longrightarrow> contextOpen (toggleAutoGain c s)"
proof -
  assume "contextOpen s"
  then have "contextOpen (s\<lparr>autoGainControl := \<not> c_autoGainControl c\<rparr>)"
    by (simp add: contextOpen_iff)
  then show ?thesis
    by (simp add: toggleAutoGain_def Let_def contextOpen_restart)
qed

lemma contextOpen_retuneFilter: "contextOpen s \<Longrightarrow> contextOpen (retuneFilter c s)"
  by (rule contextOpen_same [of _ s]; cases "filterRef s") (simp_all add: retuneFilter_def)

lemma contextOpen_toggleNoiseSuppress:
  "contextOpen s \<Longrightarrow> contextOpen (toggleNoiseSuppress c s)"
  by (simp add: toggleNoiseSuppress_def Let_def contextOpen_restart contextOpen_retuneFilter)

lemma contextOpen_updateAudioLevel: "contextOpen s \<Longrightarrow> contextOpen (updateAudioLevel w s)"
  by (rule contextOpen_same [of _ s]; cases "analyserRef s")
    (simp_all add: updateAudioLevel_def requestFrame_def)

lemma contextOpen_started: "contextOpen s \<Longrightarrow> contextOpen (started w s)"
proof -
  assume "contextOpen s"
  then have "contextOpen (s\<lparr>isActive := True\<rparr>)"
    by (simp add: contextOpen_iff)
  then have "contextOpen (updateAudioLevel w (s\<lparr>isActive := True\<rparr>))"
    by (rule contextOpen_updateAudioLevel)
  then show ?thesis
    by (simp add: started_def Let_def contextOpen_iff)
qed

lemma contextOpen_failed: "contextOpen s \<Longrightarrow> contextOpen (failed name s)"
  by (simp add: failed_def contextOpen_iff)

lemma contextOpen_built:
  "contexts s ctx = Some Running \<Longrightarrow> contextOpen (buildNodes c stream ctx s)"
  by (simp add: buildNodes_def contextOpen_iff)

lemma contextOpen_streamSettled: "contextOpen s \<Longrightarrow> contextOpen (streamSettled c a w s)"
proof (cases a)
  case (Rejected name)
  assume "contextOpen s"
  then show ?thesis
    using Rejected by (simp add: streamSettled_def contextOpen_failed)
next
  case (Granted e)
  assume inv: "contextOpen s"
  show ?thesis
  proof (cases e)
    case (ConstructorThrows name)
    from inv show ?thesis
      using Granted ConstructorThrows
      by (simp add: streamSettled_def Let_def failed_def contextOpen_iff)
  next
    case ConstructedRunning
    show ?thesis
      using Granted ConstructedRunning
      by (simp add: streamSettled_def Let_def contextOpen_started contextOpen_built)
  next
    case ConstructedSuspended
    from inv show ?thesis
      using Granted ConstructedSuspended
      by (cases "audioContextRef s") (simp_all add: streamSettled_def Let_def contextOpen_iff)
  qed
qed

lemma contextOpen_resumeSettled:
  "contextOpen s \<Longrightarrow> contextOpen (resumeSettled c stream ctx r w s)"
  by (cases r)
    (simp_all add: resumeSettled_def contextOpen_failed contextOpen_started contextOpen_built)

lemma contextOpen_settleStream: "contextOpen s \<Longrightarrow> contextOpen (settleStream i a w s)"
proof -
  assume inv: "contextOpen s"
  then have "contextOpen (s\<lparr>pending := removeAt i (pending s)\<rparr>)"
    by (simp add: contextOpen_iff)
  then have "\<And>c. contextOpen (streamSettled c a w (s\<lparr>pending := removeAt i (pending s)\<rparr>))"
    by (rule contextOpen_streamSettled)
  then show ?thesis
    using inv by (simp add: settleStream_def split: task.split)
qed

lemma contextOpen_settleResume: "contextOpen s \<Longrightarrow> contextOpen (settleResume i r w s)"
proof -
  assume inv: "contextOpen s"
  then have "contextOpen (s\<lparr>pending := removeAt i (pending s)\<rparr>)"
    by (simp add: contextOpen_iff)
  then have "\<And>c stream ctx.
      contextOpen (resumeSettled c stream ctx r w (s\<lparr>pending := removeAt i (pending s)\<rparr>))"
    by (rule contextOpen_resumeSettled)
  then show ?thesis
    using inv by (simp add: settleResume_def split: task.split)
qed

lemma contextOpen_timerFires: "contextOpen s \<Longrightarrow> contextOpen (timerFires s)"
proof (cases "timers s")
  case Nil
  assume "contextOpen s"
  then show ?thesis using Nil by (simp add: timerFires_def)
next
  case (Cons c cs)
  assume "contextOpen s"
  then have "contextOpen (s\<lparr>timers := cs\<rparr>)"
    by (simp add: contextOpen_iff)
  then show ?thesis
    using Cons by (simp add: timerFires_def contextOpen_start)
qed

lemma contextOpen_frameFires: "contextOpen s \<Longrightarrow> contextOpen (frameFires f w s)"
proof -
  assume inv: "contextOpen s"
  then have "contextOpen (s\<lparr>frames := frames s - {f}\<rparr>)"
    by (simp add: contextOpen_iff)
  then have "contextOpen (updateAudioLevel w (s\<lparr>frames := frames s - {f}\<rparr>))"
    by (rule contextOpen_updateAudioLevel)
  then show ?thesis
    using inv by (simp add: frameFires_def)
qed

lemma contextOpen_seek:
  "contextOpen s \<Longrightarrow> contextOpen (mediaSeekBackward c s)"
  "contextOpen s \<Longrightarrow> contextOpen (mediaSeekForward c s)"
  by (rule contextOpen_same [of _ s]; cases "outputGainRef s";
      simp add: mediaSeekBackward_def mediaSeekForward_def Let_def)+

lemma contextOpen_remote:
  "(\<And>c. contextOpen (h c s)) \<Longrightarrow> contextOpen s \<Longrightarrow> contextOpen (remote h s)"
  by (cases "mediaHandlers s") (simp_all add: remote_def)

lemma contextOpen_step: "contextOpen s \<Longrightarrow> contextOpen (step e s)"
proof (cases e)
  case ClickMain
  assume "contextOpen s"
  then show ?thesis
    using ClickMain by (simp add: contextOpen_stop contextOpen_start)
next
  case RemotePlay
  assume "contextOpen s"
  then show ?thesis
    using RemotePlay
    by (simp add: contextOpen_remote mediaPlay_def contextOpen_start)
next
  case RemotePause
  assume "contextOpen s"
  then show ?thesis
    using RemotePause
    by (simp add: contextOpen_remote mediaPause_def contextOpen_stop)
next
  case RemoteStop
  assume "contextOpen s"
  then show ?thesis
    using RemoteStop
    by (simp add: contextOpen_remote mediaStop_stop contextOpen_stop)
qed (simp_all add: contextOpen_mount contextOpen_cleanup contextOpen_updateMicGain
      contextOpen_updateOutputVolume contextOpen_toggleEchoCancel contextOpen_toggleNoiseSuppress
      contextOpen_toggleAutoGain contextOpen_settleStream contextOpen_settleResume
      contextOpen_timerFires contextOpen_frameFires contextOpen_remote contextOpen_seek)

lemma contextOpen_run_from: "contextOpen s \<Longrightarrow> contextOpen (run es s)"
  by (induction es arbitrary: s) (simp_all add: contextOpen_step)

lemma contextOpen_run: "contextOpen (run es (initial ms))"
  by (rule contextOpen_run_from) (simp add: contextOpen_iff initial_def)

lemmas model_defs =
  initial_def mount_def snapshot_def startAmbientSound_def stopAmbientSound_def
  cleanup_def cancelFrame_def stopTracks_def closeContext_def clearNodes_def
  settleStream_def streamSettled_def settleResume_def resumeSettled_def
  removeAt_def started_def buildNodes_def updateAudioLevel_def requestFrame_def
  failed_def constraintsOf_def remote_def mediaPlay_def mediaPause_def mediaStop_def
  mediaSeekBackward_def mediaSeekForward_def updateMicGain_def updateOutputVolume_def
  restart_def toggleEchoCancel_def toggleAutoGain_def retuneFilter_def
  toggleNoiseSuppress_def timerFires_def frameFires_def frequencyBinCount_def

lemma zero_buffer_level: "0 < n \<Longrightarrow> sampleLevel (replicate n 0) = Some 100"
  by (rule loud_level) (auto simp add: power2_eq_square)

text \<open>
  C6, as stated, fails. A start succeeds while the signal is at full scale, so the
  level is 100; the component is then unmounted, and \<^verbatim>\<open>cleanup\<close> leaves the level
  at 100. And while a start waits for \<^verbatim>\<open>resume()\<close> the capture cell is filled and
  the context cell is still empty.
\<close>

theorem teardown_keeps_level:
  "audioLevel (run [Mount True, ClickMain,
       StreamSettles 0 (Granted ConstructedRunning) (\<lambda>i. 0), Unmount] (initial True)) = Some 100 \<and>
   streamRef (run [Mount True, ClickMain,
       StreamSettles 0 (Granted ConstructedSuspended) (\<lambda>i. 0)] (initial True)) = Some 1 \<and>
   audioContextRef (run [Mount True, ClickMain,
       StreamSettles 0 (Granted ConstructedSuspended) (\<lambda>i. 0)] (initial True)) = None"
  by (simp add: model_defs zero_buffer_level zero_signal_level)

lemma handlesPresent_running:
  "handlesPresent (streamSettled c (Granted ConstructedRunning) w s) \<and>
   isActive (streamSettled c (Granted ConstructedRunning) w s)"
  by (simp add: handlesPresent_def streamSettled_def Let_def started_def buildNodes_def
      updateAudioLevel_def requestFrame_def)

lemma handlesPresent_resumed:
  "handlesPresent (resumeSettled c stream ctx None w s) = (streamRef s \<noteq> None) \<and>
   isActive (resumeSettled c stream ctx None w s)"
  by (simp add: handlesPresent_def resumeSettled_def Let_def started_def buildNodes_def
      updateAudioLevel_def requestFrame_def)

lemma handlesPresent_suspended_resumed:
  "handlesPresent (settleResume (length (pending s)) None w'
      (streamSettled c (Granted ConstructedSuspended) w s))"
  by (simp add: settleResume_def streamSettled_def Let_def removeAt_def handlesPresent_resumed)

lemma handlesAbsent_cleanup: "contextOpen s \<Longrightarrow> handlesAbsent (cleanup s)"
  by (simp add: handlesAbsent_def cleanup_refs cleanup_context)

lemma handlesAbsent_stop: "contextOpen s \<Longrightarrow> handlesAbsent (stopAmbientSound s)"
  using handlesAbsent_cleanup [of s]
  by (cases "hasMediaSession s") (simp_all add: handlesAbsent_def stopAmbientSound_nf)

lemma audioLevel_stop: "audioLevel (stopAmbientSound s) = Some 0"
  by (cases "hasMediaSession s") (simp_all add: stopAmbientSound_nf)

lemma audioLevel_cleanup: "audioLevel (cleanup s) = audioLevel s"
  by (simp add: cleanup_nf)

text \<open>
  C6, amended. A start whose acquisition and graph construction succeed, with
  nothing happening in between, leaves all five handles present (when \<^verbatim>\<open>resume()\<close>
  settles later, the capture handle is present exactly if it still was before).
  From every state the component can reach, \<^verbatim>\<open>stopAmbientSound\<close> leaves all five
  handles absent and the level at 0, and \<^verbatim>\<open>cleanup\<close> leaves all five handles absent
  and the level as it was.
\<close>

theorem session_handles:
  "handlesPresent (streamSettled c (Granted ConstructedRunning) w s) \<and>
   handlesPresent (settleResume (length (pending s)) None w'
      (streamSettled c (Granted ConstructedSuspended) w s)) \<and>
   handlesPresent (resumeSettled c stream ctx None w s) = (streamRef s \<noteq> None) \<and>
   handlesAbsent (stopAmbientSound (run es (initial ms))) \<and>
   audioLevel (stopAmbientSound s) = Some 0 \<and>
   handlesAbsent (cleanup (run es (initial ms))) \<and>
   audioLevel (cleanup s) = audioLevel s"
proof (intro conjI)
  show "handlesPresent (streamSettled c (Granted ConstructedRunning) w s)"
    by (simp add: handlesPresent_running)
  show "handlesPresent (settleResume (length (pending s)) None w'
      (streamSettled c (Granted ConstructedSuspended) w s))"
    by (rule handlesPresent_suspended_resumed)
  show "handlesPresent (resumeSettled c stream ctx None w s) = (streamRef s \<noteq> None)"
    by (simp add: handlesPresent_resumed)
  show "handlesAbsent (stopAmbientSound (run es (initial ms)))"
    by (rule handlesAbsent_stop) (rule contextOpen_run)
  show "audioLevel (stopAmbientSound s) = Some 0"
    by (rule audioLevel_stop)
  show "handlesAbsent (cleanup (run es (initial ms)))"
    by (rule handlesAbsent_cleanup) (rule contextOpen_run)
  show "audioLevel (cleanup s) = audioLevel s"
    by (rule audioLevel_cleanup)
qed

section \<open>Stopping while the acquisition is pending\<close>

text \<open>
  C1, as stated, fails. The component is mounted, the main button starts, the
  media session's stop action runs before \<^verbatim>\<open>getUserMedia\<close> settles, and then the
  stream is granted: the component ends active, with the stream in its cell and
  live.
\<close>

theorem stop_is_forgotten:
  "isActive (run [Mount True, ClickMain, RemoteStop,
       StreamSettles 0 (Granted ConstructedRunning) (\<lambda>i. 128)] (initial True)) \<and>
   streamRef (run [Mount True, ClickMain, RemoteStop,
       StreamSettles 0 (Granted ConstructedRunning) (\<lambda>i. 128)] (initial True)) = Some 1 \<and>
   1 \<in> liveStreams (run [Mount True, ClickMain, RemoteStop,
       StreamSettles 0 (Granted ConstructedRunning) (\<lambda>i. 128)] (initial True)) \<and>
   pending (run [Mount True, ClickMain, RemoteStop,
       StreamSettles 0 (Granted ConstructedRunning) (\<lambda>i. 128)] (initial True)) = []"
  by (simp add: model_defs)

text \<open>
  C1, amended. A stop issued while the acquisition is pending leaves the component
  inactive with no stream held, and leaves the pending start in place. If the
  acquisition is then rejected, the component stays inactive with no stream held.
  If it is then granted and the context runs, the component becomes active with all
  handles present and the new stream held: the stop is not remembered.
\<close>

theorem stop_before_acquisition:
  "(let s1 = stopAmbientSound (startAmbientSound c s);
        i = length (pending s);
        s2 = settleStream i (Rejected name) samples s1;
        s3 = settleStream i (Granted ConstructedRunning) samples s1
    in \<not> isActive s1 \<and> streamRef s1 = None \<and>
       liveStreams s1 = liveStreams s - set_option (streamRef s) \<and>
       pending s1 = pending s @ [AwaitStream c (constraintsOf c)] \<and>
       \<not> isActive s2 \<and> streamRef s2 = None \<and> liveStreams s2 = liveStreams s1 \<and>
       pending s2 = pending s \<and>
       isActive s3 \<and> streamRef s3 = Some (nextId s) \<and> nextId s \<in> liveStreams s3 \<and>
       handlesPresent s3 \<and> pending s3 = pending s)"
proof -
  let ?s1 = "stopAmbientSound (startAmbientSound c s)"
  let ?i = "length (pending s)"
  have p: "pending ?s1 = pending s @ [AwaitStream c (constraintsOf c)]"
    by (cases "hasMediaSession s") (simp_all add: stopAmbientSound_nf cleanup_nf startAmbientSound_def)
  have a: "\<not> isActive ?s1" "streamRef ?s1 = None"
    "liveStreams ?s1 = liveStreams s - set_option (streamRef s)" "nextId ?s1 = nextId s"
    by (cases "hasMediaSession s"; simp add: stopAmbientSound_nf cleanup_nf startAmbientSound_def)+
  have r: "removeAt ?i (pending ?s1) = pending s"
    by (simp add: p removeAt_def)
  have s2: "settleStream ?i (Rejected name) samples ?s1 =
      streamSettled c (Rejected name) samples (?s1\<lparr>pending := pending s\<rparr>)"
    by (simp add: settleStream_def p r [simplified p])
  have s3: "settleStream ?i (Granted ConstructedRunning) samples ?s1 =
      streamSettled c (Granted ConstructedRunning) samples (?s1\<lparr>pending := pending s\<rparr>)"
    by (simp add: settleStream_def p r [simplified p])
  have b: "\<not> isActive (settleStream ?i (Rejected name) samples ?s1)"
    "streamRef (settleStream ?i (Rejected name) samples ?s1) = None"
    "liveStreams (settleStream ?i (Rejected name) samples ?s1) = liveStreams ?s1"
    "pending (settleStream ?i (Rejected name) samples ?s1) = pending s"
    by (simp_all add: s2 rejected_sets_error a)
  have c: "isActive (settleStream ?i (Granted ConstructedRunning) samples ?s1)"
    "handlesPresent (settleStream ?i (Granted ConstructedRunning) samples ?s1)"
    by (simp_all add: s3 handlesPresent_running)
  have d: "streamRef (settleStream ?i (Granted ConstructedRunning) samples ?s1) = Some (nextId s)"
    "nextId s \<in> liveStreams (settleStream ?i (Granted ConstructedRunning) samples ?s1)"
    using granted_holds_stream [of c ConstructedRunning samples "?s1\<lparr>pending := pending s\<rparr>"]
    by (simp_all add: s3 a)
  have e: "pending (settleStream ?i (Granted ConstructedRunning) samples ?s1) = pending s"
    by (simp add: s3 streamSettled_def Let_def started_def buildNodes_def updateAudioLevel_def
        requestFrame_def)
  show ?thesis
    unfolding Let_def using p a(1-3) b c d e by (intro conjI)
qed

theorem stop_before_acquisition_witness:
  "\<not> isActive (stopAmbientSound (startAmbientSound (snapshot (initial True)) (initial True))) \<and>
   isActive (settleStream 0 (Granted ConstructedRunning) (\<lambda>i. 128)
      (stopAmbientSound (startAmbientSound (snapshot (initial True)) (initial True)))) \<and>
   streamRef (settleStream 0 (Granted ConstructedRunning) (\<lambda>i. 128)
      (stopAmbientSound (startAmbientSound (snapshot (initial True)) (initial True)))) = Some 1 \<and>
   \<not> isActive (settleStream 0 (Rejected ''NotAllowedError'') (\<lambda>i. 128)
      (stopAmbientSound (startAmbientSound (snapshot (initial True)) (initial True))))"
proof -
  have "pending (initial True) = []" "nextId (initial True) = 1"
    by (simp_all add: initial_def)
  with stop_before_acquisition [of "snapshot (initial True)" "initial True"
      "''NotAllowedError''" "\<lambda>i. 128"]
  show ?thesis by (simp add: Let_def)
qed

section \<open>A start that fails after the stream was granted\<close>

text \<open>
  C2 at a failing input. The stream is granted and \<^verbatim>\<open>new AudioContext\<close> throws: the
  component is inactive, yet the stream stays in its cell with its tracks live.
  The same happens when \<^verbatim>\<open>resume()\<close> rejects, and the context built for that start
  is then never closed.
\<close>

theorem failed_build_keeps_stream:
  "\<not> isActive (run [Mount True, ClickMain,
       StreamSettles 0 (Granted (ConstructorThrows ''NotSupportedError'')) (\<lambda>i. 128)]
       (initial True)) \<and>
   streamRef (run [Mount True, ClickMain,
       StreamSettles 0 (Granted (ConstructorThrows ''NotSupportedError'')) (\<lambda>i. 128)]
       (initial True)) = Some 1 \<and>
   1 \<in> liveStreams (run [Mount True, ClickMain,
       StreamSettles 0 (Granted (ConstructorThrows ''NotSupportedError'')) (\<lambda>i. 128)]
       (initial True)) \<and>
   audioContextRef (run [Mount True, ClickMain,
       StreamSettles 0 (Granted (ConstructorThrows ''NotSupportedError'')) (\<lambda>i. 128)]
       (initial True)) = None \<and>
   pending (run [Mount True, ClickMain,
       StreamSettles 0 (Granted (ConstructorThrows ''NotSupportedError'')) (\<lambda>i. 128)]
       (initial True)) = [] \<and>
   1 \<in> liveStreams (run [Mount True, ClickMain,
       StreamSettles 0 (Granted ConstructedSuspended) (\<lambda>i. 128),
       ResumeSettles 0 (Some ''InvalidStateError'') (\<lambda>i. 128)] (initial True)) \<and>
   \<not> isActive (run [Mount True, ClickMain,
       StreamSettles 0 (Granted ConstructedSuspended) (\<lambda>i. 128),
       ResumeSettles 0 (Some ''InvalidStateError'') (\<lambda>i. 128)] (initial True)) \<and>
   contexts (run [Mount True, ClickMain,
       StreamSettles 0 (Granted ConstructedSuspended) (\<lambda>i. 128),
       ResumeSettles 0 (Some ''InvalidStateError'') (\<lambda>i. 128)] (initial True)) 2 = Some Suspended"
  by (simp add: model_defs)

text \<open>
  What does hold when a start fails, at whichever point: the active flag and the
  preferences are as they were.
\<close>

lemma failed_start_keeps_preferences:
  "preferences (streamSettled c (Rejected name) w s) = preferences s \<and>
   isActive (streamSettled c (Rejected name) w s) = isActive s \<and>
   preferences (streamSettled c (Granted (ConstructorThrows name)) w s) = preferences s \<and>
   isActive (streamSettled c (Granted (ConstructorThrows name)) w s) = isActive s \<and>
   preferences (resumeSettled c stream ctx (Some name) w s) = preferences s \<and>
   isActive (resumeSettled c stream ctx (Some name) w s) = isActive s"
  by (simp add: preferences_def streamSettled_def resumeSettled_def failed_def Let_def)

section \<open>The remote actions\<close>

text \<open>
  C8 at failing inputs. The handlers read the values of the first render. With a
  session running, the pause action leaves it running and the play action starts
  a second acquisition; with the output volume at 20, the forward step sets it to
  70 and the backward step to 50.
\<close>

theorem remote_actions_stale:
  "isActive (run [Mount True, ClickMain,
       StreamSettles 0 (Granted ConstructedRunning) (\<lambda>i. 128), RemotePause] (initial True)) \<and>
   1 \<in> liveStreams (run [Mount True, ClickMain,
       StreamSettles 0 (Granted ConstructedRunning) (\<lambda>i. 128), RemotePause] (initial True)) \<and>
   playbackState (run [Mount True, ClickMain,
       StreamSettles 0 (Granted ConstructedRunning) (\<lambda>i. 128), RemotePause] (initial True)) =
     Playing \<and>
   length (pending (run [Mount True, ClickMain,
       StreamSettles 0 (Granted ConstructedRunning) (\<lambda>i. 128), RemotePlay] (initial True))) = 1 \<and>
   outputVolume (run [Mount True, SlideOutputVolume 20, RemoteSeekForward] (initial True)) = 70 \<and>
   outputVolume (run [Mount True, SlideOutputVolume 20, RemoteSeekBackward] (initial True)) = 50"
  by (simp add: model_defs)

section \<open>Toggling noise suppression\<close>

text \<open>
  C3, as stated, fails. With a session running and noise suppression on, the
  switch turns the flag off and no rebuild follows: the session stays active with
  its stream and context, and no timer is set.
\<close>

theorem noise_toggle_off_keeps_session:
  "isActive (run [Mount True, ClickMain,
       StreamSettles 0 (Granted ConstructedRunning) (\<lambda>i. 128), SwitchNoiseSuppress]
       (initial True)) \<and>
   \<not> noiseSuppress (run [Mount True, ClickMain,
       StreamSettles 0 (Granted ConstructedRunning) (\<lambda>i. 128), SwitchNoiseSuppress]
       (initial True)) \<and>
   timers (run [Mount True, ClickMain,
       StreamSettles 0 (Granted ConstructedRunning) (\<lambda>i. 128), SwitchNoiseSuppress]
       (initial True)) = [] \<and>
   pending (run [Mount True, ClickMain,
       StreamSettles 0 (Granted ConstructedRunning) (\<lambda>i. 128), SwitchNoiseSuppress]
       (initial True)) = [] \<and>
   streamRef (run [Mount True, ClickMain,
       StreamSettles 0 (Granted ConstructedRunning) (\<lambda>i. 128), SwitchNoiseSuppress]
       (initial True)) = Some 1 \<and>
   1 \<in> liveStreams (run [Mount True, ClickMain,
       StreamSettles 0 (Granted ConstructedRunning) (\<lambda>i. 128), SwitchNoiseSuppress]
       (initial True)) \<and>
   audioContextRef (run [Mount True, ClickMain,
       StreamSettles 0 (Granted ConstructedRunning) (\<lambda>i. 128), SwitchNoiseSuppress]
       (initial True)) = Some 2"
  by (simp add: model_defs)

text \<open>
  When the switch turns the flag on, the timer holds the \<^verbatim>\<open>startAmbientSound\<close> of the
  render in which the flag was off, so the session it builds has the cutoff 80.
\<close>

lemma rebuilt_filter_has_old_cutoff:
  "noiseSuppress (run [Mount True, SwitchNoiseSuppress, ClickMain,
       StreamSettles 0 (Granted ConstructedRunning) (\<lambda>i. 128), SwitchNoiseSuppress, TimerFires,
       StreamSettles 0 (Granted ConstructedRunning) (\<lambda>i. 128)] (initial True)) \<and>
   map_option frequency (filterRef (run [Mount True, SwitchNoiseSuppress, ClickMain,
       StreamSettles 0 (Granted ConstructedRunning) (\<lambda>i. 128), SwitchNoiseSuppress, TimerFires,
       StreamSettles 0 (Granted ConstructedRunning) (\<lambda>i. 128)] (initial True))) = Some 80"
  by (simp add: model_defs)

lemma retuneFilter_nf:
  "filterRef s = Some f \<Longrightarrow>
   retuneFilter c s =
     s\<lparr>noiseSuppress := \<not> c_noiseSuppress c,
       filterRef := Some (f\<lparr>frequency := (if \<not> c_noiseSuppress c then 200 else 80)\<rparr>)\<rparr>"
  by (simp add: retuneFilter_def)

text \<open>
  C3, amended. With a session running, the switch flips the flag and at once gives
  the live filter the cutoff of the new flag (200 when turned on, 80 when turned
  off). Turned off, nothing else happens: the session stays as it is, with the
  cutoff 80. Turned on, the session is stopped at once (inactive, stream released,
  nodes cleared, level 0) and a start is put on a timer.
\<close>

theorem toggleNoiseSuppress_active:
  assumes "isActive s" and "filterRef s = Some f"
  shows
  "noiseSuppress (toggleNoiseSuppress (snapshot s) s) = (\<not> noiseSuppress s) \<and>
   filterRef (retuneFilter (snapshot s) s) =
     Some (f\<lparr>frequency := (if noiseSuppress s then 80 else 200)\<rparr>) \<and>
   (noiseSuppress s \<longrightarrow>
      toggleNoiseSuppress (snapshot s) s = retuneFilter (snapshot s) s \<and>
      filterRef (toggleNoiseSuppress (snapshot s) s) = Some (f\<lparr>frequency := 80\<rparr>) \<and>
      isActive (toggleNoiseSuppress (snapshot s) s) \<and>
      timers (toggleNoiseSuppress (snapshot s) s) = timers s \<and>
      pending (toggleNoiseSuppress (snapshot s) s) = pending s \<and>
      streamRef (toggleNoiseSuppress (snapshot s) s) = streamRef s \<and>
      audioContextRef (toggleNoiseSuppress (snapshot s) s) = audioContextRef s \<and>
      liveStreams (toggleNoiseSuppress (snapshot s) s) = liveStreams s \<and>
      contexts (toggleNoiseSuppress (snapshot s) s) = contexts s) \<and>
   (\<not> noiseSuppress s \<longrightarrow>
      toggleNoiseSuppress (snapshot s) s = restart (snapshot s) (retuneFilter (snapshot s) s) \<and>
      \<not> isActive (toggleNoiseSuppress (snapshot s) s) \<and>
      streamRef (toggleNoiseSuppress (snapshot s) s) = None \<and>
      filterRef (toggleNoiseSuppress (snapshot s) s) = None \<and>
      audioLevel (toggleNoiseSuppress (snapshot s) s) = Some 0 \<and>
      liveStreams (toggleNoiseSuppress (snapshot s) s) = liveStreams s - set_option (streamRef s) \<and>
      timers (toggleNoiseSuppress (snapshot s) s) = timers s @ [snapshot s])"
proof -
  let ?c = "snapshot s"
  let ?r = "retuneFilter ?c s"
  have c: "c_isActive ?c" "c_noiseSuppress ?c = noiseSuppress s"
    using assms(1) by (simp_all add: snapshot_def)
  have r: "?r = s\<lparr>noiseSuppress := \<not> noiseSuppress s,
       filterRef := Some (f\<lparr>frequency := (if \<not> noiseSuppress s then 200 else 80)\<rparr>)\<rparr>"
    using retuneFilter_nf [OF assms(2), of ?c] by (simp add: c)
  have on: "noiseSuppress s \<Longrightarrow> toggleNoiseSuppress ?c s = ?r"
    by (simp add: toggleNoiseSuppress_def c)
  have off: "\<not> noiseSuppress s \<Longrightarrow> toggleNoiseSuppress ?c s = restart ?c ?r"
    by (simp add: toggleNoiseSuppress_def c)
  have stop: "\<not> isActive (restart ?c ?r)" "streamRef (restart ?c ?r) = None"
    "filterRef (restart ?c ?r) = None" "audioLevel (restart ?c ?r) = Some 0"
    "liveStreams (restart ?c ?r) = liveStreams s - set_option (streamRef s)"
    "timers (restart ?c ?r) = timers s @ [?c]"
    "noiseSuppress (restart ?c ?r) = (\<not> noiseSuppress s)"
    by (cases "hasMediaSession s"; simp add: restart_def Let_def stopAmbientSound_nf cleanup_nf r)+
  have 1: "noiseSuppress (toggleNoiseSuppress ?c s) = (\<not> noiseSuppress s)"
    by (cases "noiseSuppress s") (simp_all add: on off stop, simp add: r)
  have 2: "filterRef ?r = Some (f\<lparr>frequency := (if noiseSuppress s then 80 else 200)\<rparr>)"
    by (simp add: r)
  have 3: "noiseSuppress s \<longrightarrow>
      toggleNoiseSuppress ?c s = ?r \<and>
      filterRef (toggleNoiseSuppress ?c s) = Some (f\<lparr>frequency := 80\<rparr>) \<and>
      isActive (toggleNoiseSuppress ?c s) \<and>
      timers (toggleNoiseSuppress ?c s) = timers s \<and>
      pending (toggleNoiseSuppress ?c s) = pending s \<and>
      streamRef (toggleNoiseSuppress ?c s) = streamRef s \<and>
      audioContextRef (toggleNoiseSuppress ?c s) = audioContextRef s \<and>
      liveStreams (toggleNoiseSuppress ?c s) = liveStreams s \<and>
      contexts (toggleNoiseSuppress ?c s) = contexts s"
  proof
    assume n: "noiseSuppress s"
    have "toggleNoiseSuppress ?c s = s\<lparr>noiseSuppress := False,
       filterRef := Some (f\<lparr>frequency := 80\<rparr>)\<rparr>"
      using on [OF n] r n by simp
    then show "toggleNoiseSuppress ?c s = ?r \<and>
      filterRef (toggleNoiseSuppress ?c s) = Some (f\<lparr>frequency := 80\<rparr>) \<and>
      isActive (toggleNoiseSuppress ?c s) \<and>
      timers (toggleNoiseSuppress ?c s) = timers s \<and>
      pending (toggleNoiseSuppress ?c s) = pending s \<and>
      streamRef (toggleNoiseSuppress ?c s) = streamRef s \<and>
      audioContextRef (toggleNoiseSuppress ?c s) = audioContextRef s \<and>
      liveStreams (toggleNoiseSuppress ?c s) = liveStreams s \<and>
      contexts (toggleNoiseSuppress ?c s) = contexts s"
      using on [OF n] assms(1) by simp
  qed
  have 4: "\<not> noiseSuppress s \<longrightarrow>
      toggleNoiseSuppress ?c s = restart ?c ?r \<and>
      \<not> isActive (toggleNoiseSuppress ?c s) \<and>
      streamRef (toggleNoiseSuppress ?c s) = None \<and>
      filterRef (toggleNoiseSuppress ?c s) = None \<and>
      audioLevel (toggleNoiseSuppress ?c s) = Some 0 \<and>
      liveStreams (toggleNoiseSuppress ?c s) = liveStreams s - set_option (streamRef s) \<and>
      timers (toggleNoiseSuppress ?c s) = timers s @ [?c]"
    using off stop by simp
  from 1 2 3 4 show ?thesis by (intro conjI)
qed

theorem toggleNoiseSuppress_active_witness:
  "isActive (run [Mount True, ClickMain,
       StreamSettles 0 (Granted ConstructedRunning) (\<lambda>i. 128)] (initial True)) \<and>
   noiseSuppress (run [Mount True, ClickMain,
       StreamSettles 0 (Granted ConstructedRunning) (\<lambda>i. 128)] (initial True)) \<and>
   isActive (toggleNoiseSuppress
      (snapshot (run [Mount True, ClickMain,
         StreamSettles 0 (Granted ConstructedRunning) (\<lambda>i. 128)] (initial True)))
      (run [Mount True, ClickMain,
         StreamSettles 0 (Granted ConstructedRunning) (\<lambda>i. 128)] (initial True))) \<and>
   filterRef (toggleNoiseSuppress
      (snapshot (run [Mount True, ClickMain,
         StreamSettles 0 (Granted ConstructedRunning) (\<lambda>i. 128)] (initial True)))
      (run [Mount True, ClickMain,
         StreamSettles 0 (Granted ConstructedRunning) (\<lambda>i. 128)] (initial True))) =
     Some (\<lparr>filterType = ''highpass'', frequency = 200, filterQ = 1\<rparr>\<lparr>frequency := 80\<rparr>) \<and>
   isActive (run [Mount True, SwitchNoiseSuppress, ClickMain,
       StreamSettles 0 (Granted ConstructedRunning) (\<lambda>i. 128)] (initial True)) \<and>
   \<not> noiseSuppress (run [Mount True, SwitchNoiseSuppress, ClickMain,
       StreamSettles 0 (Granted ConstructedRunning) (\<lambda>i. 128)] (initial True)) \<and>
   \<not> isActive (toggleNoiseSuppress
      (snapshot (run [Mount True, SwitchNoiseSuppress, ClickMain,
         StreamSettles 0 (Granted ConstructedRunning) (\<lambda>i. 128)] (initial True)))
      (run [Mount True, SwitchNoiseSuppress, ClickMain,
         StreamSettles 0 (Granted ConstructedRunning) (\<lambda>i. 128)] (initial True))) \<and>
   streamRef (toggleNoiseSuppress
      (snapshot (run [Mount True, SwitchNoiseSuppress, ClickMain,
         StreamSettles 0 (Granted ConstructedRunning) (\<lambda>i. 128)] (initial True)))
      (run [Mount True, SwitchNoiseSuppress, ClickMain,
         StreamSettles 0 (Granted ConstructedRunning) (\<lambda>i. 128)] (initial True))) = None"
proof -
  let ?a = "run [Mount True, ClickMain,
       StreamSettles 0 (Granted ConstructedRunning) (\<lambda>i. 128)] (initial True)"
  let ?b = "run [Mount True, SwitchNoiseSuppress, ClickMain,
       StreamSettles 0 (Granted ConstructedRunning) (\<lambda>i. 128)] (initial True)"
  have a: "isActive ?a" "noiseSuppress ?a"
    and fa: "filterRef ?a = Some \<lparr>filterType = ''highpass'', frequency = 200, filterQ = 1\<rparr>"
    by (simp_all add: model_defs)
  have b: "isActive ?b" "\<not> noiseSuppress ?b"
    and fb: "filterRef ?b = Some \<lparr>filterType = ''highpass'', frequency = 80, filterQ = 1\<rparr>"
    by (simp_all add: model_defs)
  from toggleNoiseSuppress_active [OF a(1) fa] toggleNoiseSuppress_active [OF b(1) fb] a b
  show ?thesis by blast
qed

end
